theory Spec2Isabelle
  imports Complex_Main "HOL-Library.Sublist"
begin

section \<open>Retry and polling helpers\<close>

text \<open>
  \<^verbatim>\<open>TestHelpers.retryOperation\<close> (src/utils/test.helpers.ts) and
  \<^verbatim>\<open>APIHelpers.waitForAPIResponse\<close> (the API helper class) are loops around a
  caller-supplied asynchronous \<^verbatim>\<open>operation\<close>. Neither loop looks at anything but the
  outcome of each call, so an operation is modelled by the outcomes of its successive
  invocations: \<open>operation n\<close> is what the call number \<open>n\<close> (counted from 0) does, \<open>Inl e\<close>
  when it throws \<open>e\<close> and \<open>Inr v\<close> when it resolves to \<open>v\<close>. The world records how often the
  operation has been invoked and which delays were awaited through \<^verbatim>\<open>setTimeout\<close>.
  The numeric parameters are integers here (the source's \<^verbatim>\<open>number\<close> restricted to
  whole values).
\<close>

record world =
  calls :: nat
  sleeps :: "int list"

definition world0 :: world where
  "world0 = \<lparr>calls = 0, sleeps = []\<rparr>"

text \<open>What a rejected promise carries: \<^verbatim>\<open>undefined\<close>, a value thrown by the operation,
  or a fresh \<^verbatim>\<open>new Error(message)\<close>.\<close>

datatype 'e thrown = Undefined | Thrown 'e | JsError string

definition invoke :: "(nat \<Rightarrow> 'e + 'a) \<Rightarrow> world \<Rightarrow> ('e + 'a) \<times> world" where
  "invoke operation w = (operation (calls w), w\<lparr>calls := Suc (calls w)\<rparr>)"

definition sleep :: "int \<Rightarrow> world \<Rightarrow> world" where
  "sleep delay w = w\<lparr>sleeps := sleeps w @ [delay]\<rparr>"

text \<open>The \<^verbatim>\<open>for (let i = 0; i < maxRetries; i++)\<close> loop of \<^verbatim>\<open>retryOperation\<close>, from
  index \<open>i\<close> on, with the current \<^verbatim>\<open>lastError\<close> (\<open>None\<close> is \<^verbatim>\<open>undefined\<close>).\<close>

function retry_loop ::
  "(nat \<Rightarrow> 'e + 'a) \<Rightarrow> int \<Rightarrow> int \<Rightarrow> int \<Rightarrow> 'e option \<Rightarrow> world \<Rightarrow> ('e thrown + 'a) \<times> world"
where
  "retry_loop operation maxRetries delay i lastError w =
     (if i < maxRetries then
        (case invoke operation w of
           (Inr v, w') \<Rightarrow> (Inr v, w')
         | (Inl e, w') \<Rightarrow>
             retry_loop operation maxRetries delay (i + 1) (Some e)
               (if i < maxRetries - 1 then sleep delay w' else w'))
      else (Inl (case lastError of None \<Rightarrow> Undefined | Some e \<Rightarrow> Thrown e), w))"
  by pat_completeness auto
termination
  by (relation "measure (\<lambda>(operation, maxRetries, delay, i, lastError, w). nat (maxRetries - i))") auto

declare retry_loop.simps [simp del]

text \<open>The optional arguments carry the defaults \<^verbatim>\<open>maxRetries = 3\<close> and
  \<^verbatim>\<open>delay = 1000\<close>.\<close>

definition retryOperation ::
  "(nat \<Rightarrow> 'e + 'a) \<Rightarrow> int option \<Rightarrow> int option \<Rightarrow> world \<Rightarrow> ('e thrown + 'a) \<times> world"
where
  "retryOperation operation maxRetries delay w =
     retry_loop operation (case maxRetries of None \<Rightarrow> 3 | Some m \<Rightarrow> m)
       (case delay of None \<Rightarrow> 1000 | Some d \<Rightarrow> d) 0 None w"

text \<open>The loop of \<^verbatim>\<open>waitForAPIResponse\<close>: the call of the operation is not inside a
  \<^verbatim>\<open>try\<close>, so what it throws leaves the loop at once.\<close>

definition condition_not_met :: string where
  "condition_not_met = ''API response condition not met within timeout''"

function poll_loop ::
  "(nat \<Rightarrow> 'e + 'a) \<Rightarrow> ('a \<Rightarrow> bool) \<Rightarrow> int \<Rightarrow> int \<Rightarrow> int \<Rightarrow> world \<Rightarrow> ('e thrown + 'a) \<times> world"
where
  "poll_loop operation condition maxRetries delay i w =
     (if i < maxRetries then
        (case invoke operation w of
           (Inl e, w') \<Rightarrow> (Inl (Thrown e), w')
         | (Inr response, w') \<Rightarrow>
             if condition response then (Inr response, w')
             else poll_loop operation condition maxRetries delay (i + 1)
                    (if i < maxRetries - 1 then sleep delay w' else w'))
      else (Inl (JsError condition_not_met), w))"
  by pat_completeness auto
termination
  by (relation "measure (\<lambda>(operation, condition, maxRetries, delay, i, w). nat (maxRetries - i))") auto

declare poll_loop.simps [simp del]

text \<open>Defaults: \<^verbatim>\<open>maxRetries = 10\<close>, \<^verbatim>\<open>delay = 1000\<close>.\<close>

definition waitForAPIResponse ::
  "(nat \<Rightarrow> 'e + 'a) \<Rightarrow> ('a \<Rightarrow> bool) \<Rightarrow> int option \<Rightarrow> int option \<Rightarrow> world \<Rightarrow> ('e thrown + 'a) \<times> world"
where
  "waitForAPIResponse operation condition maxRetries delay w =
     poll_loop operation condition (case maxRetries of None \<Rightarrow> 10 | Some m \<Rightarrow> m)
       (case delay of None \<Rightarrow> 1000 | Some d \<Rightarrow> d) 0 w"

text \<open>Sample operations for the concrete runs.\<close>

definition fails_twice :: "nat \<Rightarrow> string + nat" where
  "fails_twice n = (if n < 2 then Inl (if n = 0 then ''first'' else ''second'') else Inr 42)"

definition always_fails :: "nat \<Rightarrow> string + nat" where
  "always_fails n = Inl (if n = 0 then ''first'' else if n = 1 then ''second'' else ''third'')"

definition counts_up :: "nat \<Rightarrow> string + nat" where
  "counts_up n = Inr (Suc n)"

definition at_least :: "nat \<Rightarrow> nat \<Rightarrow> bool" where
  "at_least m r = (m \<le> r)"

definition throws_second :: "nat \<Rightarrow> string + nat" where
  "throws_second n = (if n = 1 then Inl ''boom'' else Inr (Suc n))"

section \<open>The custom reporter\<close>

text \<open>
  \<^verbatim>\<open>CustomReporter\<close> collects one record per finished test attempt and, at the end of the
  run, writes \<^verbatim>\<open>reports/custom-report.json\<close> and \<^verbatim>\<open>reports/summary.md\<close> and prints a
  summary. Text is UTF-8 here: a string is the list of bytes that reaches the console or a
  file, so each emoji of the source is the byte sequence of its encoding.
\<close>

definition nl :: string where
  "nl = [CHR 0x0A]"

definition glyph_passed :: string where
  "glyph_passed = [CHR 0xE2, CHR 0x9C, CHR 0x85]"

definition glyph_failed :: string where
  "glyph_failed = [CHR 0xE2, CHR 0x9D, CHR 0x8C]"

definition glyph_timedOut :: string where
  "glyph_timedOut = [CHR 0xE2, CHR 0x8F, CHR 0xB1, CHR 0xEF, CHR 0xB8, CHR 0x8F]"

definition glyph_skipped :: string where
  "glyph_skipped = [CHR 0xE2, CHR 0x8F, CHR 0xAD, CHR 0xEF, CHR 0xB8, CHR 0x8F]"

definition glyph_interrupted :: string where
  "glyph_interrupted = [CHR 0xF0, CHR 0x9F, CHR 0x9B, CHR 0x91]"

definition glyph_unknown :: string where
  "glyph_unknown = [CHR 0xE2, CHR 0x9D, CHR 0x93]"

definition glyph_flaky :: string where
  "glyph_flaky = [CHR 0xF0, CHR 0x9F, CHR 0x94, CHR 0x84]"

text \<open>The statuses of a test attempt (\<^verbatim>\<open>'passed'\<close>, \<^verbatim>\<open>'failed'\<close>, \<^verbatim>\<open>'timedOut'\<close>,
  \<^verbatim>\<open>'skipped'\<close>, \<^verbatim>\<open>'interrupted'\<close>) and of a whole run (the argument of \<^verbatim>\<open>onEnd\<close>).\<close>

datatype test_status = Passed | Failed | TimedOut | Skipped | Interrupted

datatype run_status = RunPassed | RunFailed | RunTimedout | RunInterrupted

fun run_status_text :: "run_status \<Rightarrow> string" where
  "run_status_text RunPassed = ''passed''"
| "run_status_text RunFailed = ''failed''"
| "run_status_text RunTimedout = ''timedout''"
| "run_status_text RunInterrupted = ''interrupted''"

text \<open>What the reporter reads of the runner's \<^verbatim>\<open>TestCase\<close> and \<^verbatim>\<open>TestResult\<close>. An
  attachment is (name, path, contentType), an annotation (type, description), an error
  (message, stack).\<close>

record testCase =
  test_title :: string
  test_titlePath :: "string list"
  test_file :: string
  test_line :: nat
  test_column :: nat
  test_tags :: "string list"
  test_annotations :: "(string \<times> string option) list"

record testAttempt =
  result_status :: test_status
  result_duration :: int
  result_retry :: nat
  result_error :: "(string option \<times> string option) option"
  result_stdout :: "string list"
  result_stderr :: "string list"
  result_attachments :: "(string \<times> string option \<times> string) list"

text \<open>The object literal \<^verbatim>\<open>testResult\<close> that \<^verbatim>\<open>onTestEnd\<close> pushes.\<close>

record testResult =
  title :: string
  fullTitle :: string
  "file" :: string
  line :: nat
  column :: nat
  status :: test_status
  duration :: int
  retry :: nat
  error :: "string option"
  stack :: "string option"
  stdout :: "string list"
  stderr :: "string list"
  attachments :: "(string \<times> string option \<times> string) list"
  tags :: "string list"
  annotations :: "(string \<times> string option) list"

text \<open>The reporter's fields: \<^verbatim>\<open>results\<close>, \<^verbatim>\<open>startTime\<close> (milliseconds since the
  epoch) and, of \<^verbatim>\<open>config\<close>, the root directory as path segments.\<close>

record reporter =
  results :: "testResult list"
  startTime :: int
  rootDir :: "string list"

text \<open>The object literal \<^verbatim>\<open>summary\<close> of \<^verbatim>\<open>onEnd\<close>. Its fields \<open>status\<close>, \<open>duration\<close>,
  \<open>results\<close> and \<open>startTime\<close> share their names with fields above; the qualified names
  tell them apart.\<close>

record summary =
  startTime :: string
  endTime :: string
  duration :: int
  status :: "run_status option"
  totalTests :: nat
  passed :: nat
  failed :: nat
  skipped :: nat
  flaky :: nat
  results :: "testResult list"

subsection \<open>Numbers and text\<close>

text \<open>
  The quotient of two finite numbers in JavaScript: \<^verbatim>\<open>0 / 0\<close> is \<^verbatim>\<open>NaN\<close>, another
  number over zero is an infinity, and everything else is finite. A finite value is kept as
  the exact rational; how a finite double prints with a fixed number of decimals is left to
  the runtime below, together with the date formats and \<^verbatim>\<open>JSON.stringify\<close>.
\<close>

datatype number = NaN | Infinity | NegInfinity | Finite rat

definition divide_number :: "rat \<Rightarrow> rat \<Rightarrow> number" where
  "divide_number a b =
     (if b = 0 then (if a = 0 then NaN else if 0 < a then Infinity else NegInfinity)
      else Finite (a / b))"

fun times100 :: "number \<Rightarrow> number" where
  "times100 NaN = NaN"
| "times100 Infinity = Infinity"
| "times100 NegInfinity = NegInfinity"
| "times100 (Finite q) = Finite (q * 100)"

record runtime =
  toISOString :: "int \<Rightarrow> string"
  toLocaleString :: "string \<Rightarrow> string"
  toFixed_finite :: "rat \<Rightarrow> nat \<Rightarrow> string"
  stringify :: "summary \<Rightarrow> string"

fun toFixed :: "runtime \<Rightarrow> number \<Rightarrow> nat \<Rightarrow> string" where
  "toFixed rt NaN digits = ''NaN''"
| "toFixed rt Infinity digits = ''Infinity''"
| "toFixed rt NegInfinity digits = ''-Infinity''"
| "toFixed rt (Finite q) digits = toFixed_finite rt q digits"

function string_of_nat :: "nat \<Rightarrow> string" where
  "string_of_nat n =
     (if n < 10 then [''0123456789'' ! n]
      else string_of_nat (n div 10) @ [''0123456789'' ! (n mod 10)])"
  by pat_completeness auto
termination
  by (relation "measure id") auto

declare string_of_nat.simps [simp del]

definition string_of_int :: "int \<Rightarrow> string" where
  "string_of_int i = (if i < 0 then ''-'' @ string_of_nat (nat (- i)) else string_of_nat (nat i))"

text \<open>\<^verbatim>\<open>Array.prototype.join\<close>, and a template hole for a string that may be
  \<^verbatim>\<open>undefined\<close>.\<close>

fun join :: "string \<Rightarrow> string list \<Rightarrow> string" where
  "join sep [] = []"
| "join sep [x] = x"
| "join sep (x # y # ys) = x @ sep @ join sep (y # ys)"

definition text_or_undefined :: "string option \<Rightarrow> string" where
  "text_or_undefined s = (case s of None \<Rightarrow> ''undefined'' | Some t \<Rightarrow> t)"

text \<open>\<^verbatim>\<open>{...}[status] || fallback\<close>: a missing key and an empty string both give the
  fallback.\<close>

definition lookup_or :: "('k \<times> string) list \<Rightarrow> 'k \<Rightarrow> string \<Rightarrow> string" where
  "lookup_or table k fallback =
     (case map_of table k of None \<Rightarrow> fallback | Some v \<Rightarrow> if v = [] then fallback else v)"

text \<open>The glyph table of \<^verbatim>\<open>onTestEnd\<close> and the one of \<^verbatim>\<open>generateMarkdownSummary\<close>.\<close>

definition console_statusIcon :: "(test_status \<times> string) list" where
  "console_statusIcon =
     [(Passed, glyph_passed), (Failed, glyph_failed), (TimedOut, glyph_timedOut),
      (Skipped, glyph_skipped), (Interrupted, glyph_interrupted)]"

definition markdown_statusIcon :: "(test_status \<times> string) list" where
  "markdown_statusIcon =
     [(Passed, glyph_passed), (Failed, glyph_failed), (TimedOut, glyph_timedOut),
      (Skipped, glyph_skipped)]"

subsection \<open>Console and file system\<close>

text \<open>
  The process's surroundings: the lines printed so far, the directories made and files
  written, and for each file-system call whether it fails (and with which error code), as
  a full disk or a missing permission would make it.
\<close>

datatype console_line = ConsoleLog string | ConsoleError string

datatype fs_call = Mkdir "string list" | WriteFile "string list"

record system =
  console :: "console_line list"
  directories :: "string list list"
  files :: "(string list \<times> string) list"
  fault :: "fs_call \<Rightarrow> string option"

definition console_log :: "string \<Rightarrow> system \<Rightarrow> system" where
  "console_log l w = w\<lparr>console := console w @ [ConsoleLog l]\<rparr>"

definition console_error :: "string \<Rightarrow> system \<Rightarrow> system" where
  "console_error l w = w\<lparr>console := console w @ [ConsoleError l]\<rparr>"

definition mkdir :: "string list \<Rightarrow> system \<Rightarrow> string + system" where
  "mkdir p w =
     (case fault w (Mkdir p) of
        Some e \<Rightarrow> Inl e
      | None \<Rightarrow> Inr (w\<lparr>directories := directories w @ [p]\<rparr>))"

definition writeFile :: "string list \<Rightarrow> string \<Rightarrow> system \<Rightarrow> string + system" where
  "writeFile p content w =
     (case fault w (WriteFile p) of
        Some e \<Rightarrow> Inl e
      | None \<Rightarrow> Inr (w\<lparr>files := files w @ [(p, content)]\<rparr>))"

subsection \<open>The reporter's callbacks\<close>

definition onBegin :: "string list \<Rightarrow> nat \<Rightarrow> int \<Rightarrow> reporter \<Rightarrow> system \<Rightarrow> reporter \<times> system" where
  "onBegin configRootDir allTests now this w =
     (this\<lparr>rootDir := configRootDir, reporter.startTime := now\<rparr>,
      console_log (''Starting test run with '' @ string_of_nat allTests @ '' tests'') w)"

definition onTestEnd :: "testCase \<Rightarrow> testAttempt \<Rightarrow> reporter \<Rightarrow> system \<Rightarrow> reporter \<times> system" where
  "onTestEnd test result this w =
     (let testResult =
            \<lparr>title = test_title test,
             fullTitle = join '' > '' (test_titlePath test),
             file = test_file test,
             line = test_line test,
             column = test_column test,
             testResult.status = result_status result,
             testResult.duration = result_duration result,
             retry = result_retry result,
             error = (case result_error result of None \<Rightarrow> None | Some (m, s) \<Rightarrow> m),
             stack = (case result_error result of None \<Rightarrow> None | Some (m, s) \<Rightarrow> s),
             stdout = result_stdout result,
             stderr = result_stderr result,
             attachments = result_attachments result,
             tags = test_tags test,
             annotations = test_annotations test\<rparr>;
          this' = this\<lparr>reporter.results := reporter.results this @ [testResult]\<rparr>;
          statusIcon = lookup_or console_statusIcon (result_status result) glyph_unknown;
          w1 = console_log (statusIcon @ '' '' @ test_title test @ '' (''
                 @ string_of_int (result_duration result) @ ''ms)'') w
      in (this',
          (case result_error result of
             None \<Rightarrow> w1
           | Some (m, s) \<Rightarrow> console_error (''   '' @ text_or_undefined m) w1)))"

text \<open>The object literal \<^verbatim>\<open>summary\<close> that \<^verbatim>\<open>onEnd\<close> builds first.\<close>

definition onEnd_summary :: "runtime \<Rightarrow> reporter \<Rightarrow> run_status option \<Rightarrow> int \<Rightarrow> summary" where
  "onEnd_summary rt this run_status now =
     \<lparr>summary.startTime = toISOString rt (reporter.startTime this),
      endTime = toISOString rt now,
      summary.duration = now - reporter.startTime this,
      summary.status = run_status,
      totalTests = length (reporter.results this),
      passed = length (filter (\<lambda>r. testResult.status r = Passed) (reporter.results this)),
      failed = length (filter (\<lambda>r. testResult.status r = Failed) (reporter.results this)),
      skipped = length (filter (\<lambda>r. testResult.status r = Skipped) (reporter.results this)),
      flaky = length (filter (\<lambda>r. retry r > 0 \<and> testResult.status r = Passed)
                        (reporter.results this)),
      summary.results = reporter.results this\<rparr>"

text \<open>The callbacks of the two \<^verbatim>\<open>forEach\<close> loops of \<^verbatim>\<open>generateMarkdownSummary\<close>,
  and a percentage cell of its summary table.\<close>

definition failed_entry :: "testResult \<Rightarrow> string" where
  "failed_entry r =
     ''### '' @ glyph_failed @ '' '' @ title r @ nl @
     ''- **File**: '' @ file r @ '':'' @ string_of_nat (line r) @ nl @
     ''- **Error**: '' @ text_or_undefined (error r) @ nl @
     (if length (tags r) > 0 then ''- **Tags**: '' @ join '', '' (tags r) @ nl else []) @
     nl"

definition details_row :: "testResult \<Rightarrow> string" where
  "details_row r =
     (let statusIcon = lookup_or markdown_statusIcon (testResult.status r) glyph_unknown
      in ''| '' @ title r @ '' | '' @ statusIcon @ '' | ''
           @ string_of_int (testResult.duration r) @ ''ms | ''
           @ (if join '', '' (tags r) = [] then ''-'' else join '', '' (tags r)) @ '' |'' @ nl)"

definition percentage :: "runtime \<Rightarrow> nat \<Rightarrow> nat \<Rightarrow> string" where
  "percentage rt k n =
     toFixed rt (times100 (divide_number (of_nat k) (of_nat n))) 1"

text \<open>\<^verbatim>\<open>generateMarkdownSummary\<close> appends four blocks to \<^verbatim>\<open>md\<close>: the heading with
  date, duration and status; the summary table; the failed tests, if any; the table of all
  results.\<close>

definition md_heading :: "runtime \<Rightarrow> summary \<Rightarrow> string" where
  "md_heading rt summary =
     ''# Test Run Report'' @ nl @ nl @
     ''**Date**: '' @ toLocaleString rt (summary.startTime summary) @ nl @
     ''**Duration**: ''
        @ toFixed rt (divide_number (of_int (summary.duration summary)) 1000) 2 @ ''s'' @ nl @
     ''**Status**: ''
        @ (case summary.status summary of None \<Rightarrow> ''completed'' | Some s \<Rightarrow> run_status_text s)
        @ nl @ nl"

definition md_summary_table :: "runtime \<Rightarrow> summary \<Rightarrow> string" where
  "md_summary_table rt summary =
     ''## Summary'' @ nl @ nl @
     ''| Status | Count | Percentage |'' @ nl @
     ''|--------|-------|------------|'' @ nl @
     ''| '' @ glyph_passed @ '' Passed | '' @ string_of_nat (passed summary) @ '' | ''
        @ percentage rt (passed summary) (totalTests summary) @ ''% |'' @ nl @
     ''| '' @ glyph_failed @ '' Failed | '' @ string_of_nat (failed summary) @ '' | ''
        @ percentage rt (failed summary) (totalTests summary) @ ''% |'' @ nl @
     ''| '' @ glyph_skipped @ '' Skipped | '' @ string_of_nat (skipped summary) @ '' | ''
        @ percentage rt (skipped summary) (totalTests summary) @ ''% |'' @ nl @
     ''| '' @ glyph_flaky @ '' Flaky | '' @ string_of_nat (flaky summary) @ '' | ''
        @ percentage rt (flaky summary) (totalTests summary) @ ''% |'' @ nl"

definition md_failed_tests :: "reporter \<Rightarrow> summary \<Rightarrow> string" where
  "md_failed_tests this summary =
     (if failed summary > 0 then
        nl @ ''## Failed Tests'' @ nl @ nl @
        concat (map failed_entry
                  (filter (\<lambda>r. testResult.status r = Failed) (reporter.results this)))
      else [])"

definition md_test_details :: "reporter \<Rightarrow> string" where
  "md_test_details this =
     nl @ ''## Test Details'' @ nl @ nl @
     ''<details>'' @ nl @ ''<summary>Click to expand full test results</summary>'' @ nl @ nl @
     ''| Test | Status | Duration | Tags |'' @ nl @
     ''|------|--------|----------|------|'' @ nl @
     concat (map details_row (reporter.results this)) @
     nl @ ''</details>'' @ nl"

definition generateMarkdownSummary :: "runtime \<Rightarrow> reporter \<Rightarrow> summary \<Rightarrow> string" where
  "generateMarkdownSummary rt this summary =
     md_heading rt summary @ md_summary_table rt summary @ md_failed_tests this summary
       @ md_test_details this"

text \<open>The lines that \<^verbatim>\<open>onEnd\<close> prints once both files are written: the bordered
  summary, then the failed tests if there are any.\<close>

definition console_summary :: "runtime \<Rightarrow> reporter \<Rightarrow> summary \<Rightarrow> string list" where
  "console_summary rt this summary =
     [nl @ replicate 50 CHR ''='',
      ''Test Run Summary'',
      replicate 50 CHR ''='',
      ''Total Tests: '' @ string_of_nat (totalTests summary),
      glyph_passed @ '' Passed: '' @ string_of_nat (passed summary),
      glyph_failed @ '' Failed: '' @ string_of_nat (failed summary),
      glyph_skipped @ ''  Skipped: '' @ string_of_nat (skipped summary),
      glyph_flaky @ '' Flaky: '' @ string_of_nat (flaky summary),
      glyph_timedOut @ ''  Duration: ''
        @ toFixed rt (divide_number (of_int (summary.duration summary)) 1000) 2 @ ''s'',
      replicate 50 CHR ''='']
     @ (if failed summary > 0 then
          (nl @ ''Failed Tests:'') #
          concat (map (\<lambda>r. [''  '' @ glyph_failed @ '' '' @ fullTitle r,
                             ''     '' @ text_or_undefined (error r),
                             ''     at '' @ file r @ '':'' @ string_of_nat (line r)])
                    (filter (\<lambda>r. testResult.status r = Failed) (reporter.results this)))
        else [])"

text \<open>\<^verbatim>\<open>onEnd\<close>: no \<^verbatim>\<open>try\<close> surrounds the three awaited file-system calls, so the
  first one that fails rejects the promise that \<^verbatim>\<open>onEnd\<close> returns and nothing after it
  runs.\<close>

definition onEnd ::
  "runtime \<Rightarrow> reporter \<Rightarrow> run_status option \<Rightarrow> int \<Rightarrow> system \<Rightarrow> (string + unit) \<times> system"
where
  "onEnd rt this run_status now w =
     (let summary = onEnd_summary rt this run_status now;
          reportPath = rootDir this @ [''reports'', ''custom-report.json'']
      in case mkdir (butlast reportPath) w of
           Inl e \<Rightarrow> (Inl e, w)
         | Inr w1 \<Rightarrow>
             (case writeFile reportPath (stringify rt summary) w1 of
                Inl e \<Rightarrow> (Inl e, w1)
              | Inr w2 \<Rightarrow>
                  (let summaryPath = rootDir this @ [''reports'', ''summary.md''];
                       summaryMd = generateMarkdownSummary rt this summary
                   in case writeFile summaryPath summaryMd w2 of
                        Inl e \<Rightarrow> (Inl e, w2)
                      | Inr w3 \<Rightarrow>
                          (Inr (), foldl (\<lambda>w l. console_log l w) w3
                                     (console_summary rt this summary)))))"

subsection \<open>The flaky count as the specification words it\<close>

text \<open>
  Following the specification's wording, not the source: group the outcomes by
  \<open>fullTitle\<close> and count the groups whose highest \<open>retry\<close> is above 0 and is reached by an
  outcome with status passed. The source's own count is the field \<open>flaky\<close> of
  \<open>onEnd_summary\<close>.
\<close>

definition flaky_groups :: "testResult list \<Rightarrow> nat" where
  "flaky_groups rs =
     length (filter
       (\<lambda>p. let g = filter (\<lambda>r. fullTitle r = p) rs; m = Max (set (map retry g))
            in 0 < m \<and> (\<exists>r \<in> set g. retry r = m \<and> testResult.status r = Passed))
       (remdups (map fullTitle rs)))"

subsection \<open>Sample data\<close>

text \<open>A recorded outcome of which only the title path, the retry index and the status
  matter, a reporter holding given outcomes, and a runtime for the concrete runs (its
  renderer of finite numbers rounds the exact value half up).\<close>

definition outcome :: "string \<Rightarrow> nat \<Rightarrow> test_status \<Rightarrow> testResult" where
  "outcome p k st =
     \<lparr>title = p, fullTitle = p, file = ''tests/example.spec.ts'', line = 1, column = 1,
      testResult.status = st, testResult.duration = 0, retry = k, error = None, stack = None,
      stdout = [], stderr = [], attachments = [], tags = [], annotations = []\<rparr>"

definition reporter_with :: "testResult list \<Rightarrow> reporter" where
  "reporter_with rs = \<lparr>reporter.results = rs, reporter.startTime = 0, rootDir = [''project'']\<rparr>"

definition pad_left :: "nat \<Rightarrow> string \<Rightarrow> string" where
  "pad_left n s = replicate (n - length s) CHR ''0'' @ s"

definition fixed_half_up :: "rat \<Rightarrow> nat \<Rightarrow> string" where
  "fixed_half_up q digits =
     (let scaled = nat \<lfloor>\<bar>q\<bar> * 10 ^ digits + 1 / 2\<rfloor>
      in (if q < 0 \<and> 0 < scaled then ''-'' else []) @ string_of_nat (scaled div 10 ^ digits)
         @ (if digits = 0 then [] else ''.'' @ pad_left digits (string_of_nat (scaled mod 10 ^ digits))))"

definition sample_runtime :: runtime where
  "sample_runtime =
     \<lparr>toISOString = (\<lambda>t. ''T'' @ string_of_int t),
      toLocaleString = (\<lambda>s. s),
      toFixed_finite = fixed_half_up,
      stringify = (\<lambda>s. ''{}'')\<rparr>"

definition quiet_system :: system where
  "quiet_system = \<lparr>console = [], directories = [], files = [], fault = (\<lambda>c. None)\<rparr>"

definition full_disk_system :: system where
  "full_disk_system =
     \<lparr>console = [], directories = [], files = [],
      fault = (\<lambda>c. if c = WriteFile [''project'', ''reports'', ''summary.md'']
                     then Some ''ENOSPC'' else None)\<rparr>"

definition read_only_system :: system where
  "read_only_system =
     \<lparr>console = [], directories = [], files = [],
      fault = (\<lambda>c. if c = WriteFile [''project'', ''reports'', ''custom-report.json'']
                     then Some ''EACCES'' else None)\<rparr>"

definition sample_test :: testCase where
  "sample_test =
     \<lparr>test_title = ''loads'', test_titlePath = [''chromium'', ''home.spec.ts'', ''loads''],
      test_file = ''tests/home.spec.ts'', test_line = 7, test_column = 3,
      test_tags = [], test_annotations = []\<rparr>"

definition interrupted_attempt :: testAttempt where
  "interrupted_attempt =
     \<lparr>result_status = Interrupted, result_duration = 12, result_retry = 0,
      result_error = None, result_stdout = [], result_stderr = [], result_attachments = []\<rparr>"

section \<open>Properties of the retry loop\<close>

lemma calls_sleep [simp]: "calls (sleep d w) = calls w"
  by (simp add: sleep_def)

lemma retry_loop_all_fail:
  "\<forall>j < n. isl (operation (calls w + j)) \<Longrightarrow> maxRetries - i = int n \<Longrightarrow>
   retry_loop operation maxRetries delay i le w = (r, w') \<Longrightarrow>
   calls w' = calls w + n \<and>
   r = Inl (if n = 0 then (case le of None \<Rightarrow> Undefined | Some e \<Rightarrow> Thrown e)
            else Thrown (projl (operation (calls w + n - 1))))"
proof (induction n arbitrary: i le w)
  case 0
  then show ?case by (simp add: retry_loop.simps)
next
  case (Suc n)
  from Suc.prems(1) obtain e where e: "operation (calls w) = Inl e"
    by (metis add.right_neutral isl_def zero_less_Suc)
  let ?w1 = "w\<lparr>calls := Suc (calls w)\<rparr>"
  let ?w2 = "if i < maxRetries - 1 then sleep delay ?w1 else ?w1"
  have lt: "i < maxRetries" using Suc.prems(2) by simp
  have step: "retry_loop operation maxRetries delay i le w
              = retry_loop operation maxRetries delay (i + 1) (Some e) ?w2"
    using lt e by (subst retry_loop.simps) (simp add: invoke_def)
  have c2: "calls ?w2 = Suc (calls w)" by simp
  have all: "\<forall>j < n. isl (operation (calls ?w2 + j))"
    using Suc.prems(1) c2 by (metis Suc_less_eq add_Suc_shift)
  have m: "maxRetries - (i + 1) = int n" using Suc.prems(2) by simp
  from Suc.IH [OF all m] step Suc.prems(3)
  have ih: "calls w' = calls ?w2 + n \<and>
      r = Inl (if n = 0 then Thrown e else Thrown (projl (operation (calls ?w2 + n - 1))))"
    by simp
  show ?case
  proof (cases "n = 0")
    case True
    with ih e c2 show ?thesis by simp
  next
    case False
    with ih c2 show ?thesis by simp
  qed
qed

lemma retry_loop_success:
  "\<forall>j < n. isl (operation (calls w + j)) \<Longrightarrow> operation (calls w + n) = Inr v \<Longrightarrow>
   i + int n < maxRetries \<Longrightarrow>
   retry_loop operation maxRetries delay i le w = (r, w') \<Longrightarrow>
   r = Inr v \<and> calls w' = calls w + Suc n"
proof (induction n arbitrary: i le w)
  case 0
  then show ?case
    by (subst (asm) retry_loop.simps) (auto simp: invoke_def)
next
  case (Suc n)
  from Suc.prems(1) obtain e where e: "operation (calls w) = Inl e"
    by (metis add.right_neutral isl_def zero_less_Suc)
  let ?w1 = "w\<lparr>calls := Suc (calls w)\<rparr>"
  let ?w2 = "if i < maxRetries - 1 then sleep delay ?w1 else ?w1"
  have lt: "i < maxRetries" using Suc.prems(3) by simp
  have step: "retry_loop operation maxRetries delay i le w
              = retry_loop operation maxRetries delay (i + 1) (Some e) ?w2"
    using lt e by (subst retry_loop.simps) (simp add: invoke_def)
  have c2: "calls ?w2 = Suc (calls w)" by simp
  have all: "\<forall>j < n. isl (operation (calls ?w2 + j))"
    using Suc.prems(1) c2 by (metis Suc_less_eq add_Suc_shift)
  have ok: "operation (calls ?w2 + n) = Inr v" using Suc.prems(2) c2 by simp
  have m: "(i + 1) + int n < maxRetries" using Suc.prems(3) by simp
  from Suc.IH [OF all ok m] step Suc.prems(4) c2 show ?case by simp
qed

section \<open>Properties of the polling loop\<close>

text \<open>As long as the operation resolves to responses the condition rejects, the loop
  moves on: after \<open>n\<close> such rounds it stands at index \<open>i + n\<close> with \<open>n\<close> more calls made.\<close>

lemma poll_loop_skip:
  "\<forall>j < n. \<exists>r. operation (calls w + j) = Inr r \<and> \<not> condition r \<Longrightarrow>
   i + int n \<le> maxRetries \<Longrightarrow>
   \<exists>w2. calls w2 = calls w + n \<and>
     poll_loop operation condition maxRetries delay i w
       = poll_loop operation condition maxRetries delay (i + int n) w2"
proof (induction n arbitrary: i w)
  case 0
  have "calls w = calls w + 0 \<and>
        poll_loop operation condition maxRetries delay i w
          = poll_loop operation condition maxRetries delay (i + int 0) w"
    by simp
  then show ?case by blast
next
  case (Suc n)
  from Suc.prems(1) obtain r0 where r0: "operation (calls w) = Inr r0" "\<not> condition r0"
    by (metis add.right_neutral zero_less_Suc)
  let ?w1 = "w\<lparr>calls := Suc (calls w)\<rparr>"
  let ?w2 = "if i < maxRetries - 1 then sleep delay ?w1 else ?w1"
  have lt: "i < maxRetries" using Suc.prems(2) by simp
  have step: "poll_loop operation condition maxRetries delay i w
              = poll_loop operation condition maxRetries delay (i + 1) ?w2"
    using lt r0 by (subst poll_loop.simps) (simp add: invoke_def)
  have c2: "calls ?w2 = Suc (calls w)" by simp
  have all: "\<forall>j < n. \<exists>r. operation (calls ?w2 + j) = Inr r \<and> \<not> condition r"
    using Suc.prems(1) c2 by (metis Suc_less_eq add_Suc_shift)
  have m: "(i + 1) + int n \<le> maxRetries" using Suc.prems(2) by simp
  from Suc.IH [OF all m] obtain w3 where
    w3: "calls w3 = calls ?w2 + n"
        "poll_loop operation condition maxRetries delay (i + 1) ?w2
           = poll_loop operation condition maxRetries delay (i + 1 + int n) w3"
    by blast
  have "calls w3 = calls w + Suc n" using w3(1) c2 by simp
  moreover have "poll_loop operation condition maxRetries delay i w
                 = poll_loop operation condition maxRetries delay (i + int (Suc n)) w3"
    using step w3(2) by (simp add: add.commute add.left_commute)
  ultimately show ?case by blast
qed

lemma poll_loop_accept:
  "operation (calls w) = Inr v \<Longrightarrow> condition v \<Longrightarrow> i < maxRetries \<Longrightarrow>
   poll_loop operation condition maxRetries delay i w = (Inr v, w\<lparr>calls := Suc (calls w)\<rparr>)"
  by (subst poll_loop.simps) (simp add: invoke_def)

lemma poll_loop_throw:
  "operation (calls w) = Inl e \<Longrightarrow> i < maxRetries \<Longrightarrow>
   poll_loop operation condition maxRetries delay i w
     = (Inl (Thrown e), w\<lparr>calls := Suc (calls w)\<rparr>)"
  by (subst poll_loop.simps) (simp add: invoke_def)

lemma poll_loop_exhausted:
  "maxRetries \<le> i \<Longrightarrow>
   poll_loop operation condition maxRetries delay i w = (Inl (JsError condition_not_met), w)"
  by (subst poll_loop.simps) simp

lemma retry_loop_exhausted:
  "maxRetries \<le> i \<Longrightarrow>
   retry_loop operation maxRetries delay i le w
     = (Inl (case le of None \<Rightarrow> Undefined | Some e \<Rightarrow> Thrown e), w)"
  by (subst retry_loop.simps) simp

section \<open>Claims about the retry and polling helpers\<close>

text \<open>
  C4. An operation that throws on each of its \<open>maxRetries\<close> attempts (at least one attempt)
  makes \<open>retryOperation\<close> reject with the value thrown by the last attempt, after exactly
  \<open>maxRetries\<close> invocations.
\<close>

theorem retryOperation_propagates_last_failure:
  assumes "0 < maxRetries"
    and "\<forall>j < nat maxRetries. isl (operation j)"
  shows "fst (retryOperation operation (Some maxRetries) delay world0)
           = Inl (Thrown (projl (operation (nat maxRetries - 1))))
         \<and> calls (snd (retryOperation operation (Some maxRetries) delay world0)) = nat maxRetries"
proof -
  let ?d = "case delay of None \<Rightarrow> 1000 | Some d \<Rightarrow> d"
  obtain r w' where rw: "retry_loop operation maxRetries ?d 0 None world0 = (r, w')"
    by (cases "retry_loop operation maxRetries ?d 0 None world0")
  have a: "\<forall>j < nat maxRetries. isl (operation (calls world0 + j))"
    using assms(2) by (simp add: world0_def)
  have b: "maxRetries - 0 = int (nat maxRetries)" using assms(1) by simp
  have n0: "nat maxRetries \<noteq> 0" using assms(1) by simp
  from retry_loop_all_fail [OF a b rw] n0
  have "calls w' = nat maxRetries \<and> r = Inl (Thrown (projl (operation (nat maxRetries - 1))))"
    by (simp add: world0_def)
  then show ?thesis by (simp add: retryOperation_def rw)
qed

theorem retryOperation_propagates_last_failure_witness:
  "(0::int) < 3
   \<and> isl (always_fails 0) \<and> isl (always_fails 1) \<and> isl (always_fails 2)
   \<and> fst (retryOperation always_fails (Some 3) (Some 0) world0) = Inl (Thrown ''third'')
   \<and> calls (snd (retryOperation always_fails (Some 3) (Some 0) world0)) = 3"
proof -
  have h1: "(0::int) < 3" by simp
  have h2: "\<forall>j < nat 3. isl (always_fails j)" by (simp add: always_fails_def)
  have last: "projl (always_fails (nat 3 - 1)) = ''third''" by (simp add: always_fails_def)
  have h3: "isl (always_fails 0) \<and> isl (always_fails 1) \<and> isl (always_fails 2)"
    by (simp add: always_fails_def)
  show ?thesis
    using h1 h3 last retryOperation_propagates_last_failure [OF h1 h2, of "Some 0"]
    by simp
qed

text \<open>
  C5. An operation that throws on its first \<open>k - 1\<close> invocations and resolves to \<open>v\<close> on
  invocation \<open>k\<close>, with \<open>k\<close> within \<open>maxRetries\<close>, makes \<open>retryOperation\<close> resolve to \<open>v\<close>
  after exactly \<open>k\<close> invocations.
\<close>

theorem retryOperation_returns_first_success:
  assumes "1 \<le> k" and "int k \<le> maxRetries"
    and "\<forall>j < k - 1. isl (operation j)"
    and "operation (k - 1) = Inr v"
  shows "fst (retryOperation operation (Some maxRetries) delay world0) = Inr v
         \<and> calls (snd (retryOperation operation (Some maxRetries) delay world0)) = k"
proof -
  let ?d = "case delay of None \<Rightarrow> 1000 | Some d \<Rightarrow> d"
  obtain r w' where rw: "retry_loop operation maxRetries ?d 0 None world0 = (r, w')"
    by (cases "retry_loop operation maxRetries ?d 0 None world0")
  have a: "\<forall>j < k - 1. isl (operation (calls world0 + j))"
    using assms(3) by (simp add: world0_def)
  have b: "operation (calls world0 + (k - 1)) = Inr v"
    using assms(4) by (simp add: world0_def)
  have c: "0 + int (k - 1) < maxRetries" using assms(1,2) by simp
  from retry_loop_success [OF a b c rw] assms(1)
  have "r = Inr v \<and> calls w' = k" by (simp add: world0_def)
  then show ?thesis by (simp add: retryOperation_def rw)
qed

theorem retryOperation_returns_first_success_witness:
  "(1::nat) \<le> 3 \<and> int 3 \<le> 3 \<and> isl (fails_twice 0) \<and> isl (fails_twice 1)
   \<and> fails_twice (3 - 1) = Inr 42
   \<and> fst (retryOperation fails_twice (Some 3) (Some 0) world0) = Inr 42
   \<and> calls (snd (retryOperation fails_twice (Some 3) (Some 0) world0)) = 3"
proof -
  have h1: "(1::nat) \<le> 3" by simp
  have h2: "int 3 \<le> 3" by simp
  have h3: "\<forall>j < 3 - 1. isl (fails_twice j)" by (simp add: fails_twice_def)
  have h4: "fails_twice (3 - 1) = Inr 42" by (simp add: fails_twice_def)
  have h5: "isl (fails_twice 0) \<and> isl (fails_twice 1)" by (simp add: fails_twice_def)
  show ?thesis
    using h1 h2 h4 h5 retryOperation_returns_first_success [OF h1 h2 h3 h4, of "Some 0"]
    by simp
qed

text \<open>
  C6. When the first \<open>k - 1\<close> responses are rejected by the condition and the response of
  attempt \<open>k\<close> is accepted, with \<open>k\<close> within \<open>maxRetries\<close>, \<open>waitForAPIResponse\<close> resolves
  to that response after exactly \<open>k\<close> invocations.
\<close>

theorem waitForAPIResponse_returns_first_accepted:
  assumes "1 \<le> k" and "int k \<le> maxRetries"
    and "\<forall>j < k - 1. \<exists>r. operation j = Inr r \<and> \<not> condition r"
    and "operation (k - 1) = Inr v" and "condition v"
  shows "fst (waitForAPIResponse operation condition (Some maxRetries) delay world0) = Inr v
         \<and> calls (snd (waitForAPIResponse operation condition (Some maxRetries) delay world0)) = k"
proof -
  let ?d = "case delay of None \<Rightarrow> 1000 | Some d \<Rightarrow> d"
  have a: "\<forall>j < k - 1. \<exists>r. operation (calls world0 + j) = Inr r \<and> \<not> condition r"
    using assms(3) by (simp add: world0_def)
  have b: "0 + int (k - 1) \<le> maxRetries" using assms(1,2) by simp
  from poll_loop_skip [OF a b, of ?d] obtain w2 where
    w2: "calls w2 = calls world0 + (k - 1)"
        "poll_loop operation condition maxRetries ?d 0 world0
           = poll_loop operation condition maxRetries ?d (0 + int (k - 1)) w2"
    by blast
  have c: "calls w2 = k - 1" using w2(1) by (simp add: world0_def)
  have op: "operation (calls w2) = Inr v" using assms(4) c by simp
  have lt: "0 + int (k - 1) < maxRetries" using assms(1,2) by simp
  have "poll_loop operation condition maxRetries ?d 0 world0
          = (Inr v, w2\<lparr>calls := Suc (calls w2)\<rparr>)"
    using w2(2) op assms(5) lt
      poll_loop_accept [where operation = operation and w = w2 and v = v
          and condition = condition and i = "0 + int (k - 1)" and maxRetries = maxRetries
          and delay = ?d]
    by simp
  then show ?thesis using c assms(1) by (simp add: waitForAPIResponse_def)
qed

theorem waitForAPIResponse_returns_first_accepted_witness:
  "(1::nat) \<le> 4 \<and> int 4 \<le> 5
   \<and> counts_up 0 = Inr 1 \<and> \<not> at_least 4 1 \<and> counts_up 1 = Inr 2 \<and> \<not> at_least 4 2
   \<and> counts_up 2 = Inr 3 \<and> \<not> at_least 4 3
   \<and> counts_up (4 - 1) = Inr 4 \<and> at_least 4 4
   \<and> fst (waitForAPIResponse counts_up (at_least 4) (Some 5) (Some 0) world0) = Inr 4
   \<and> calls (snd (waitForAPIResponse counts_up (at_least 4) (Some 5) (Some 0) world0)) = 4"
proof -
  have h1: "(1::nat) \<le> 4" by simp
  have h2: "int 4 \<le> 5" by simp
  have h3: "\<forall>j < 4 - 1. \<exists>r. counts_up j = Inr r \<and> \<not> at_least 4 r" by (simp add: counts_up_def at_least_def)
  have h4: "counts_up (4 - 1) = Inr 4" by (simp add: counts_up_def at_least_def)
  have h5: "at_least 4 4" by (simp add: at_least_def)
  have h6: "counts_up 0 = Inr 1 \<and> \<not> at_least 4 1 \<and> counts_up 1 = Inr 2 \<and> \<not> at_least 4 2
            \<and> counts_up 2 = Inr 3 \<and> \<not> at_least 4 3"
    by (simp add: counts_up_def at_least_def)
  show ?thesis
    using h1 h2 h4 h5 h6
      waitForAPIResponse_returns_first_accepted
        [of 4 5 counts_up "at_least 4" 4 "Some 0", OF h1 h2 h3 h4 h5]
    by simp
qed

text \<open>
  C7. When the first \<open>k - 1\<close> responses are rejected by the condition and the operation
  throws \<open>e\<close> on attempt \<open>k\<close>, with \<open>k\<close> within \<open>maxRetries\<close>, \<open>waitForAPIResponse\<close> rejects
  with \<open>e\<close> itself and the operation has been invoked exactly \<open>k\<close> times: the exception is
  not caught and no further attempt follows it.
\<close>

theorem waitForAPIResponse_propagates_exception:
  assumes "1 \<le> k" and "int k \<le> maxRetries"
    and "\<forall>j < k - 1. \<exists>r. operation j = Inr r \<and> \<not> condition r"
    and "operation (k - 1) = Inl e"
  shows "fst (waitForAPIResponse operation condition (Some maxRetries) delay world0) = Inl (Thrown e)
         \<and> calls (snd (waitForAPIResponse operation condition (Some maxRetries) delay world0)) = k"
proof -
  let ?d = "case delay of None \<Rightarrow> 1000 | Some d \<Rightarrow> d"
  have a: "\<forall>j < k - 1. \<exists>r. operation (calls world0 + j) = Inr r \<and> \<not> condition r"
    using assms(3) by (simp add: world0_def)
  have b: "0 + int (k - 1) \<le> maxRetries" using assms(1,2) by simp
  from poll_loop_skip [OF a b, of ?d] obtain w2 where
    w2: "calls w2 = calls world0 + (k - 1)"
        "poll_loop operation condition maxRetries ?d 0 world0
           = poll_loop operation condition maxRetries ?d (0 + int (k - 1)) w2"
    by blast
  have c: "calls w2 = k - 1" using w2(1) by (simp add: world0_def)
  have op: "operation (calls w2) = Inl e" using assms(4) c by simp
  have lt: "0 + int (k - 1) < maxRetries" using assms(1,2) by simp
  have "poll_loop operation condition maxRetries ?d 0 world0
          = (Inl (Thrown e), w2\<lparr>calls := Suc (calls w2)\<rparr>)"
    using w2(2) op lt
      poll_loop_throw [where operation = operation and w = w2 and e = e
          and condition = condition and i = "0 + int (k - 1)" and maxRetries = maxRetries
          and delay = ?d]
    by simp
  then show ?thesis using c assms(1) by (simp add: waitForAPIResponse_def)
qed

theorem waitForAPIResponse_propagates_exception_witness:
  "(1::nat) \<le> 2 \<and> int 2 \<le> 5 \<and> throws_second 0 = Inr 1 \<and> \<not> at_least 4 1
   \<and> throws_second (2 - 1) = Inl ''boom''
   \<and> fst (waitForAPIResponse throws_second (at_least 4) (Some 5) (Some 0) world0)
       = Inl (Thrown ''boom'')
   \<and> calls (snd (waitForAPIResponse throws_second (at_least 4) (Some 5) (Some 0) world0)) = 2"
proof -
  have h1: "(1::nat) \<le> 2" by simp
  have h2: "int 2 \<le> 5" by simp
  have h3: "\<forall>j < 2 - 1. \<exists>r. throws_second j = Inr r \<and> \<not> at_least 4 r"
    by (simp add: throws_second_def at_least_def)
  have h4: "throws_second (2 - 1) = Inl ''boom''" by (simp add: throws_second_def at_least_def)
  have h5: "throws_second 0 = Inr 1 \<and> \<not> at_least 4 1"
    by (simp add: throws_second_def at_least_def)
  show ?thesis
    using h1 h2 h4 h5
      waitForAPIResponse_propagates_exception
        [of 2 5 throws_second "at_least 4" "''boom''" "Some 0", OF h1 h2 h3 h4]
    by simp
qed

text \<open>
  C8. When the operation resolves on each of the \<open>maxRetries\<close> attempts and the condition
  rejects every response, \<open>waitForAPIResponse\<close> rejects with the fixed error
  \<^verbatim>\<open>new Error('API response condition not met within timeout')\<close>: the error is the same
  whatever the responses were, so no response travels with it.
\<close>

theorem waitForAPIResponse_timeout_is_generic:
  assumes "\<forall>j < nat maxRetries. \<exists>r. operation j = Inr r \<and> \<not> condition r"
  shows "fst (waitForAPIResponse operation condition (Some maxRetries) delay world0)
           = Inl (JsError ''API response condition not met within timeout'')
         \<and> calls (snd (waitForAPIResponse operation condition (Some maxRetries) delay world0))
           = nat maxRetries"
proof -
  let ?d = "case delay of None \<Rightarrow> 1000 | Some d \<Rightarrow> d"
  show ?thesis
  proof (cases "0 \<le> maxRetries")
    case True
    have a: "\<forall>j < nat maxRetries. \<exists>r. operation (calls world0 + j) = Inr r \<and> \<not> condition r"
      using assms by (simp add: world0_def)
    have b: "0 + int (nat maxRetries) \<le> maxRetries" using True by simp
    from poll_loop_skip [OF a b, of ?d] obtain w2 where
      w2: "calls w2 = calls world0 + nat maxRetries"
          "poll_loop operation condition maxRetries ?d 0 world0
             = poll_loop operation condition maxRetries ?d (0 + int (nat maxRetries)) w2"
      by blast
    have ge: "maxRetries \<le> 0 + int (nat maxRetries)" using True by simp
    have "poll_loop operation condition maxRetries ?d 0 world0
            = (Inl (JsError condition_not_met), w2)"
      using w2(2) poll_loop_exhausted [OF ge, of operation condition ?d w2] by simp
    then show ?thesis
      using w2(1) by (simp add: waitForAPIResponse_def world0_def condition_not_met_def)
  next
    case False
    then have le: "maxRetries \<le> 0" by simp
    from poll_loop_exhausted [OF le, of operation condition ?d world0] False
    show ?thesis
      by (simp add: waitForAPIResponse_def world0_def condition_not_met_def)
  qed
qed

theorem waitForAPIResponse_timeout_is_generic_witness:
  "counts_up 0 = Inr 1 \<and> \<not> at_least 4 1 \<and> counts_up 1 = Inr 2 \<and> \<not> at_least 4 2
   \<and> counts_up 2 = Inr 3 \<and> \<not> at_least 4 3
   \<and> fst (waitForAPIResponse counts_up (at_least 4) (Some 3) (Some 0) world0)
       = Inl (JsError ''API response condition not met within timeout'')
   \<and> calls (snd (waitForAPIResponse counts_up (at_least 4) (Some 3) (Some 0) world0)) = 3"
proof -
  have h: "\<forall>j < nat 3. \<exists>r. counts_up j = Inr r \<and> \<not> at_least 4 r"
    by (simp add: counts_up_def at_least_def)
  have h': "counts_up 0 = Inr 1 \<and> \<not> at_least 4 1 \<and> counts_up 1 = Inr 2 \<and> \<not> at_least 4 2
            \<and> counts_up 2 = Inr 3 \<and> \<not> at_least 4 3"
    by (simp add: counts_up_def at_least_def)
  show ?thesis
    using h' waitForAPIResponse_timeout_is_generic
                [of 3 counts_up "at_least 4" "Some 0", OF h]
    by simp
qed

text \<open>
  C9 as stated fails: neither helper validates \<open>maxRetries\<close>. With \<open>maxRetries = 0\<close> the
  retry helper rejects with \<^verbatim>\<open>undefined\<close> (the never-assigned \<^verbatim>\<open>lastError\<close>), and the
  polling helper rejects with the very error it uses after three fruitless attempts; no
  error of a configuration kind exists.
\<close>

theorem nonpositive_maxRetries_counterexample:
  "fst (retryOperation always_fails (Some 0) (Some 0) world0) = Inl Undefined
   \<and> fst (waitForAPIResponse counts_up (at_least 4) (Some 0) (Some 0) world0)
       = Inl (JsError ''API response condition not met within timeout'')
   \<and> fst (waitForAPIResponse counts_up (at_least 4) (Some 0) (Some 0) world0)
       = fst (waitForAPIResponse counts_up (at_least 4) (Some 3) (Some 0) world0)"
proof -
  have a: "retryOperation always_fails (Some 0) (Some 0) world0 = (Inl Undefined, world0)"
    by (simp add: retryOperation_def retry_loop_exhausted)
  have b: "waitForAPIResponse counts_up (at_least 4) (Some 0) (Some 0) world0
             = (Inl (JsError condition_not_met), world0)"
    by (simp add: waitForAPIResponse_def poll_loop_exhausted)
  have h: "\<forall>j < nat 3. \<exists>r. counts_up j = Inr r \<and> \<not> at_least 4 r"
    by (simp add: counts_up_def at_least_def)
  have le: "(3::int) \<le> 0 + int (nat 3)" by simp
  from poll_loop_skip [of "nat 3" counts_up world0 "at_least 4" 0 3 0] h
  obtain w2 where "poll_loop counts_up (at_least 4) 3 0 0 world0
                     = poll_loop counts_up (at_least 4) 3 0 (0 + int (nat 3)) w2"
    by (auto simp: world0_def)
  then have c: "fst (waitForAPIResponse counts_up (at_least 4) (Some 3) (Some 0) world0)
                  = Inl (JsError condition_not_met)"
    using poll_loop_exhausted [OF le, of counts_up "at_least 4" 0 w2]
    by (simp add: waitForAPIResponse_def)
  show ?thesis using a b c by (simp add: condition_not_met_def)
qed

text \<open>
  C9, amended. For \<open>maxRetries \<le> 0\<close> both helpers reject without invoking the operation
  and without waiting: \<open>retryOperation\<close> rejects with \<^verbatim>\<open>undefined\<close>, and
  \<open>waitForAPIResponse\<close> with its condition-not-met error.
\<close>

theorem nonpositive_maxRetries_rejects_without_attempt:
  assumes "maxRetries \<le> 0"
  shows "retryOperation operation (Some maxRetries) delay w = (Inl Undefined, w)
         \<and> waitForAPIResponse operation' condition (Some maxRetries) delay' w
             = (Inl (JsError ''API response condition not met within timeout''), w)"
  using assms
  by (simp add: retryOperation_def waitForAPIResponse_def retry_loop_exhausted
        poll_loop_exhausted condition_not_met_def)

theorem nonpositive_maxRetries_rejects_without_attempt_witness:
  "(-1::int) \<le> 0
   \<and> retryOperation fails_twice (Some (-1)) (Some 0) world0 = (Inl Undefined, world0)
   \<and> waitForAPIResponse counts_up (at_least 4) (Some (-1)) (Some 0) world0
       = (Inl (JsError ''API response condition not met within timeout''), world0)"
proof -
  have h: "(-1::int) \<le> 0" by simp
  show ?thesis
    using h nonpositive_maxRetries_rejects_without_attempt
              [OF h, of fails_twice "Some 0" world0 counts_up "at_least 4" "Some 0"]
    by simp
qed

section \<open>Claims about the reporter\<close>

lemma flaky_count_eq_groups:
  assumes d: "distinct (map (\<lambda>r. (fullTitle r, retry r)) rs)"
    and last: "\<forall>r \<in> set rs. 0 < retry r \<and> testResult.status r = Passed \<longrightarrow>
                 (\<forall>r' \<in> set rs. fullTitle r' = fullTitle r \<longrightarrow> retry r' \<le> retry r)"
  shows "length (filter (\<lambda>r. retry r > 0 \<and> testResult.status r = Passed) rs) = flaky_groups rs"
proof -
  let ?P = "\<lambda>r. retry r > 0 \<and> testResult.status r = Passed"
  let ?F = "filter ?P rs"
  let ?g = "\<lambda>p. filter (\<lambda>r. fullTitle r = p) rs"
  let ?Q = "\<lambda>p. let g = ?g p; m = Max (set (map retry g))
                in 0 < m \<and> (\<exists>r \<in> set g. retry r = m \<and> testResult.status r = Passed)"
  let ?G = "filter ?Q (remdups (map fullTitle rs))"
  have inj_key: "inj_on (\<lambda>r. (fullTitle r, retry r)) (set rs)" and drs: "distinct rs"
    using d by (simp_all add: distinct_map)
  have max_of: "Max (set (map retry (?g (fullTitle r)))) = retry r"
    if r: "r \<in> set rs" "?P r" for r
  proof (rule Max_eqI)
    show "finite (set (map retry (?g (fullTitle r))))" by simp
    show "retry r \<in> set (map retry (?g (fullTitle r)))" using r(1) by auto
    fix y assume "y \<in> set (map retry (?g (fullTitle r)))"
    then obtain r' where "r' \<in> set rs" "fullTitle r' = fullTitle r" "y = retry r'" by auto
    with last r show "y \<le> retry r" by blast
  qed
  have inj_title: "inj_on fullTitle (set ?F)"
  proof (rule inj_onI)
    fix x y assume x: "x \<in> set ?F" and y: "y \<in> set ?F" and e: "fullTitle x = fullTitle y"
    from x y have xs: "x \<in> set rs" "?P x" and ys: "y \<in> set rs" "?P y" by auto
    from last xs ys e have "retry y \<le> retry x" by metis
    moreover from last xs ys e have "retry x \<le> retry y" by metis
    ultimately have "(fullTitle x, retry x) = (fullTitle y, retry y)" using e by simp
    with inj_key xs(1) ys(1) show "x = y" by (auto dest: inj_onD)
  qed
  have dF: "distinct (map fullTitle ?F)"
    using drs inj_title by (simp add: distinct_map)
  have dG: "distinct ?G" by simp
  have sets: "set (map fullTitle ?F) = set ?G"
  proof (intro set_eqI iffI)
    fix p assume "p \<in> set (map fullTitle ?F)"
    then obtain r where r: "r \<in> set rs" "?P r" "p = fullTitle r" by auto
    have "r \<in> set (?g p)" using r by simp
    moreover have "Max (set (map retry (?g p))) = retry r" using max_of r by simp
    ultimately have "?Q p" using r(2) by (auto simp: Let_def)
    moreover have "p \<in> set (remdups (map fullTitle rs))" using r by auto
    ultimately show "p \<in> set ?G" by simp
  next
    fix p assume "p \<in> set ?G"
    then have q: "?Q p" by simp
    then obtain r where "r \<in> set (?g p)" "retry r = Max (set (map retry (?g p)))"
      "testResult.status r = Passed" "0 < Max (set (map retry (?g p)))"
      by (auto simp: Let_def)
    then have "r \<in> set ?F" "fullTitle r = p" by auto
    then show "p \<in> set (map fullTitle ?F)" by force
  qed
  have "length ?F = length (map fullTitle ?F)" by simp
  also have "\<dots> = card (set (map fullTitle ?F))" using dF by (simp only: distinct_card)
  also have "\<dots> = card (set ?G)" using sets by simp
  also have "\<dots> = length ?G" using dG by (simp only: distinct_card)
  finally show ?thesis by (simp add: flaky_groups_def)
qed

text \<open>
  C2 as stated fails. With two tests of one title path (as under a repeated run), each
  failing once and passing on its retry, the source counts two flaky outcomes, while the
  outcomes form a single group.
\<close>

theorem flaky_count_counterexample:
  "flaky (onEnd_summary sample_runtime
            (reporter_with [outcome ''A'' 0 Failed, outcome ''A'' 1 Passed,
                            outcome ''A'' 0 Failed, outcome ''A'' 1 Passed]) None 0) = 2
   \<and> flaky_groups [outcome ''A'' 0 Failed, outcome ''A'' 1 Passed,
                   outcome ''A'' 0 Failed, outcome ''A'' 1 Passed] = 1"
  by (simp add: onEnd_summary_def reporter_with_def outcome_def flaky_groups_def)

text \<open>
  C2, amended. The flaky count of the summary is, for every sequence of recorded outcomes,
  the number of outcomes with \<open>retry > 0\<close> and status passed. It equals the number of groups
  described by the claim whenever no two outcomes share both \<open>fullTitle\<close> and \<open>retry\<close> and
  every passed outcome with \<open>retry > 0\<close> has the highest \<open>retry\<close> of its group.
\<close>

theorem flaky_count_groups:
  "flaky (onEnd_summary rt this run_status now)
     = length (filter (\<lambda>r. retry r > 0 \<and> testResult.status r = Passed)
                 (reporter.results this))
   \<and> (distinct (map (\<lambda>r. (fullTitle r, retry r)) (reporter.results this))
        \<and> (\<forall>r \<in> set (reporter.results this). 0 < retry r \<and> testResult.status r = Passed \<longrightarrow>
             (\<forall>r' \<in> set (reporter.results this).
                fullTitle r' = fullTitle r \<longrightarrow> retry r' \<le> retry r))
      \<longrightarrow> flaky (onEnd_summary rt this run_status now) = flaky_groups (reporter.results this))"
proof (intro conjI impI)
  show count: "flaky (onEnd_summary rt this run_status now)
     = length (filter (\<lambda>r. retry r > 0 \<and> testResult.status r = Passed)
                 (reporter.results this))"
    by (simp add: onEnd_summary_def)
  assume a: "distinct (map (\<lambda>r. (fullTitle r, retry r)) (reporter.results this))
        \<and> (\<forall>r \<in> set (reporter.results this). 0 < retry r \<and> testResult.status r = Passed \<longrightarrow>
             (\<forall>r' \<in> set (reporter.results this).
                fullTitle r' = fullTitle r \<longrightarrow> retry r' \<le> retry r))"
  from flaky_count_eq_groups [OF conjunct1 [OF a] conjunct2 [OF a]] count
  show "flaky (onEnd_summary rt this run_status now) = flaky_groups (reporter.results this)"
    by simp
qed

theorem flaky_count_groups_witness:
  "flaky (onEnd_summary sample_runtime
            (reporter_with [outcome ''A'' 0 Failed, outcome ''A'' 1 Passed]) None 0) = 1
   \<and> flaky_groups [outcome ''A'' 0 Failed, outcome ''A'' 1 Passed] = 1
   \<and> flaky (onEnd_summary sample_runtime (reporter_with [outcome ''B'' 0 Passed]) None 0) = 0
   \<and> flaky_groups [outcome ''B'' 0 Passed] = 0
   \<and> flaky (onEnd_summary sample_runtime
            (reporter_with [outcome ''A'' 1 Passed, outcome ''A'' 2 Failed, outcome ''A'' 1 Passed])
            None 0) = 2"
proof -
  let ?a = "reporter_with [outcome ''A'' 0 Failed, outcome ''A'' 1 Passed]"
  let ?b = "reporter_with [outcome ''B'' 0 Passed]"
  let ?c = "reporter_with [outcome ''A'' 1 Passed, outcome ''A'' 2 Failed, outcome ''A'' 1 Passed]"
  have a: "distinct (map (\<lambda>r. (fullTitle r, retry r)) (reporter.results ?a))
        \<and> (\<forall>r \<in> set (reporter.results ?a). 0 < retry r \<and> testResult.status r = Passed \<longrightarrow>
             (\<forall>r' \<in> set (reporter.results ?a).
                fullTitle r' = fullTitle r \<longrightarrow> retry r' \<le> retry r))"
    by (simp add: reporter_with_def outcome_def)
  have b: "distinct (map (\<lambda>r. (fullTitle r, retry r)) (reporter.results ?b))
        \<and> (\<forall>r \<in> set (reporter.results ?b). 0 < retry r \<and> testResult.status r = Passed \<longrightarrow>
             (\<forall>r' \<in> set (reporter.results ?b).
                fullTitle r' = fullTitle r \<longrightarrow> retry r' \<le> retry r))"
    by (simp add: reporter_with_def outcome_def)
  note ta = flaky_count_groups [of sample_runtime ?a None 0]
  note tb = flaky_count_groups [of sample_runtime ?b None 0]
  note tc = flaky_count_groups [of sample_runtime ?c None 0]
  have ga: "flaky (onEnd_summary sample_runtime ?a None 0) = flaky_groups (reporter.results ?a)"
    using ta a by blast
  have gb: "flaky (onEnd_summary sample_runtime ?b None 0) = flaky_groups (reporter.results ?b)"
    using tb b by blast
  have ca: "flaky (onEnd_summary sample_runtime ?a None 0) = 1"
    using conjunct1 [OF ta] by (simp add: reporter_with_def outcome_def)
  have cb: "flaky (onEnd_summary sample_runtime ?b None 0) = 0"
    using conjunct1 [OF tb] by (simp add: reporter_with_def outcome_def)
  have cc: "flaky (onEnd_summary sample_runtime ?c None 0) = 2"
    using conjunct1 [OF tc] by (simp add: reporter_with_def outcome_def)
  have sa: "reporter.results ?a = [outcome ''A'' 0 Failed, outcome ''A'' 1 Passed]"
    and sb: "reporter.results ?b = [outcome ''B'' 0 Passed]"
    by (simp_all add: reporter_with_def)
  show ?thesis using ga gb ca cb cc sa sb by simp
qed

subsection \<open>Writing the artifacts\<close>

lemma console_foldl_log:
  "console (foldl (\<lambda>w l. console_log l w) w ls) = console w @ map ConsoleLog ls"
  by (induction ls arbitrary: w) (simp_all add: console_log_def)

lemma files_foldl_log:
  "files (foldl (\<lambda>w l. console_log l w) w ls) = files w"
  by (induction ls arbitrary: w) (simp_all add: console_log_def)

lemma onEnd_report_write_fails:
  assumes "fault w (Mkdir (rootDir this @ [''reports''])) = None"
    and "fault w (WriteFile (rootDir this @ [''reports'', ''custom-report.json''])) = Some e"
  shows "fst (onEnd rt this run_status now w) = Inl e"
    and "console (snd (onEnd rt this run_status now w)) = console w"
  using assms by (simp_all add: onEnd_def Let_def mkdir_def writeFile_def butlast_append)

lemma onEnd_summary_write_fails:
  assumes "fault w (Mkdir (rootDir this @ [''reports''])) = None"
    and "fault w (WriteFile (rootDir this @ [''reports'', ''custom-report.json''])) = None"
    and "fault w (WriteFile (rootDir this @ [''reports'', ''summary.md''])) = Some e"
  shows "fst (onEnd rt this run_status now w) = Inl e"
    and "console (snd (onEnd rt this run_status now w)) = console w"
  using assms by (simp_all add: onEnd_def Let_def mkdir_def writeFile_def butlast_append)

lemma onEnd_writes_succeed:
  assumes "fault w (Mkdir (rootDir this @ [''reports''])) = None"
    and "fault w (WriteFile (rootDir this @ [''reports'', ''custom-report.json''])) = None"
    and "fault w (WriteFile (rootDir this @ [''reports'', ''summary.md''])) = None"
  shows "fst (onEnd rt this run_status now w) = Inr ()"
    and "console (snd (onEnd rt this run_status now w))
           = console w @ map ConsoleLog
               (console_summary rt this (onEnd_summary rt this run_status now))"
    and "files (snd (onEnd rt this run_status now w))
           = files w @
             [(rootDir this @ [''reports'', ''custom-report.json''],
               stringify rt (onEnd_summary rt this run_status now)),
              (rootDir this @ [''reports'', ''summary.md''],
               generateMarkdownSummary rt this (onEnd_summary rt this run_status now))]"
  using assms
  by (simp_all add: onEnd_def Let_def mkdir_def writeFile_def butlast_append
        console_foldl_log files_foldl_log)

text \<open>
  C1 as stated fails. On a disk that is full when \<^verbatim>\<open>summary.md\<close> is written, \<open>onEnd\<close>
  rejects with the error of the write and the console stays empty: no warning and no
  summary.
\<close>

theorem onEnd_write_failure_counterexample:
  "fst (onEnd sample_runtime (reporter_with []) (Some RunPassed) 1500 full_disk_system)
     = Inl ''ENOSPC''
   \<and> console (snd (onEnd sample_runtime (reporter_with []) (Some RunPassed) 1500
                      full_disk_system)) = []"
proof -
  have m: "fault full_disk_system (Mkdir (rootDir (reporter_with []) @ [''reports''])) = None"
    by (simp add: full_disk_system_def)
  have r: "fault full_disk_system
             (WriteFile (rootDir (reporter_with []) @ [''reports'', ''custom-report.json'']))
           = None"
    by (simp add: full_disk_system_def reporter_with_def)
  have s: "fault full_disk_system
             (WriteFile (rootDir (reporter_with []) @ [''reports'', ''summary.md'']))
           = Some ''ENOSPC''"
    by (simp add: full_disk_system_def reporter_with_def)
  from onEnd_summary_write_fails [OF m r s, of sample_runtime "Some RunPassed" 1500]
  show ?thesis by (simp add: full_disk_system_def)
qed

text \<open>
  C1, amended. A failing write of either artifact is not caught: \<open>onEnd\<close> rejects with the
  error of that write, logs nothing and does not print the console summary. When the
  directory is made and both writes succeed, \<open>onEnd\<close> resolves and prints the bordered
  console summary: a rule of fifty equals signs, the heading, the rule again, the total
  and the passed, failed, skipped and flaky counts, the duration in seconds and a closing
  rule, followed by the listing of the failed tests when there are any.
\<close>

theorem onEnd_write_failure_rejects:
  assumes "fault w (Mkdir (rootDir this @ [''reports''])) = None"
  shows "(fault w (WriteFile (rootDir this @ [''reports'', ''custom-report.json''])) = Some e
            \<longrightarrow> fst (onEnd rt this run_status now w) = Inl e
                \<and> console (snd (onEnd rt this run_status now w)) = console w)
       \<and> (fault w (WriteFile (rootDir this @ [''reports'', ''custom-report.json''])) = None
            \<and> fault w (WriteFile (rootDir this @ [''reports'', ''summary.md''])) = Some e
            \<longrightarrow> fst (onEnd rt this run_status now w) = Inl e
                \<and> console (snd (onEnd rt this run_status now w)) = console w)
       \<and> (fault w (WriteFile (rootDir this @ [''reports'', ''custom-report.json''])) = None
            \<and> fault w (WriteFile (rootDir this @ [''reports'', ''summary.md''])) = None
            \<longrightarrow> fst (onEnd rt this run_status now w) = Inr ()
                \<and> console (snd (onEnd rt this run_status now w))
                    = console w @ map ConsoleLog
                        ([nl @ replicate 50 CHR ''='',
                          ''Test Run Summary'',
                          replicate 50 CHR ''='',
                          ''Total Tests: '' @ string_of_nat (length (reporter.results this)),
                          glyph_passed @ '' Passed: '' @ string_of_nat (length
                            (filter (\<lambda>r. testResult.status r = Passed) (reporter.results this))),
                          glyph_failed @ '' Failed: '' @ string_of_nat (length
                            (filter (\<lambda>r. testResult.status r = Failed) (reporter.results this))),
                          glyph_skipped @ ''  Skipped: '' @ string_of_nat (length
                            (filter (\<lambda>r. testResult.status r = Skipped) (reporter.results this))),
                          glyph_flaky @ '' Flaky: '' @ string_of_nat (length
                            (filter (\<lambda>r. retry r > 0 \<and> testResult.status r = Passed)
                               (reporter.results this))),
                          glyph_timedOut @ ''  Duration: ''
                            @ toFixed rt (divide_number
                                (of_int (now - reporter.startTime this)) 1000) 2 @ ''s'',
                          replicate 50 CHR ''='']
                         @ (if filter (\<lambda>r. testResult.status r = Failed) (reporter.results this)
                               = []
                            then []
                            else (nl @ ''Failed Tests:'') #
                              concat (map (\<lambda>r. [''  '' @ glyph_failed @ '' '' @ fullTitle r,
                                                 ''     '' @ text_or_undefined (error r),
                                                 ''     at '' @ file r @ '':''
                                                   @ string_of_nat (line r)])
                                (filter (\<lambda>r. testResult.status r = Failed)
                                   (reporter.results this))))))"
proof (intro conjI impI)
  assume f: "fault w (WriteFile (rootDir this @ [''reports'', ''custom-report.json''])) = Some e"
  show "fst (onEnd rt this run_status now w) = Inl e"
    by (rule onEnd_report_write_fails(1) [OF assms f])
  show "console (snd (onEnd rt this run_status now w)) = console w"
    by (rule onEnd_report_write_fails(2) [OF assms f])
next
  assume f: "fault w (WriteFile (rootDir this @ [''reports'', ''custom-report.json''])) = None
             \<and> fault w (WriteFile (rootDir this @ [''reports'', ''summary.md''])) = Some e"
  show "fst (onEnd rt this run_status now w) = Inl e"
    by (rule onEnd_summary_write_fails(1) [OF assms conjunct1 [OF f] conjunct2 [OF f]])
  show "console (snd (onEnd rt this run_status now w)) = console w"
    by (rule onEnd_summary_write_fails(2) [OF assms conjunct1 [OF f] conjunct2 [OF f]])
next
  assume f: "fault w (WriteFile (rootDir this @ [''reports'', ''custom-report.json''])) = None
             \<and> fault w (WriteFile (rootDir this @ [''reports'', ''summary.md''])) = None"
  show "fst (onEnd rt this run_status now w) = Inr ()"
    by (rule onEnd_writes_succeed(1) [OF assms conjunct1 [OF f] conjunct2 [OF f]])
  show "console (snd (onEnd rt this run_status now w))
          = console w @ map ConsoleLog
                        ([nl @ replicate 50 CHR ''='',
                          ''Test Run Summary'',
                          replicate 50 CHR ''='',
                          ''Total Tests: '' @ string_of_nat (length (reporter.results this)),
                          glyph_passed @ '' Passed: '' @ string_of_nat (length
                            (filter (\<lambda>r. testResult.status r = Passed) (reporter.results this))),
                          glyph_failed @ '' Failed: '' @ string_of_nat (length
                            (filter (\<lambda>r. testResult.status r = Failed) (reporter.results this))),
                          glyph_skipped @ ''  Skipped: '' @ string_of_nat (length
                            (filter (\<lambda>r. testResult.status r = Skipped) (reporter.results this))),
                          glyph_flaky @ '' Flaky: '' @ string_of_nat (length
                            (filter (\<lambda>r. retry r > 0 \<and> testResult.status r = Passed)
                               (reporter.results this))),
                          glyph_timedOut @ ''  Duration: ''
                            @ toFixed rt (divide_number
                                (of_int (now - reporter.startTime this)) 1000) 2 @ ''s'',
                          replicate 50 CHR ''='']
                         @ (if filter (\<lambda>r. testResult.status r = Failed) (reporter.results this)
                               = []
                            then []
                            else (nl @ ''Failed Tests:'') #
                              concat (map (\<lambda>r. [''  '' @ glyph_failed @ '' '' @ fullTitle r,
                                                 ''     '' @ text_or_undefined (error r),
                                                 ''     at '' @ file r @ '':''
                                                   @ string_of_nat (line r)])
                                (filter (\<lambda>r. testResult.status r = Failed)
                                   (reporter.results this)))))"
    unfolding onEnd_writes_succeed(2) [OF assms conjunct1 [OF f] conjunct2 [OF f]]
    by (simp add: console_summary_def onEnd_summary_def)
qed



theorem onEnd_write_failure_rejects_witness:
  "fst (onEnd sample_runtime (reporter_with []) None 0 read_only_system) = Inl ''EACCES''
   \<and> console (snd (onEnd sample_runtime (reporter_with []) None 0 read_only_system)) = []
   \<and> fst (onEnd sample_runtime (reporter_with []) None 0 full_disk_system) = Inl ''ENOSPC''
   \<and> console (snd (onEnd sample_runtime (reporter_with []) None 0 full_disk_system)) = []
   \<and> fst (onEnd sample_runtime
             (reporter_with [outcome ''A'' 0 Failed, outcome ''A'' 1 Passed]) None 1500
             quiet_system) = Inr ()
   \<and> console (snd (onEnd sample_runtime
             (reporter_with [outcome ''A'' 0 Failed, outcome ''A'' 1 Passed]) None 1500
             quiet_system))
       = [ConsoleLog (nl @ replicate 50 CHR ''=''),
          ConsoleLog ''Test Run Summary'',
          ConsoleLog (replicate 50 CHR ''=''),
          ConsoleLog ''Total Tests: 2'',
          ConsoleLog (glyph_passed @ '' Passed: 1''),
          ConsoleLog (glyph_failed @ '' Failed: 1''),
          ConsoleLog (glyph_skipped @ ''  Skipped: 0''),
          ConsoleLog (glyph_flaky @ '' Flaky: 1''),
          ConsoleLog (glyph_timedOut @ ''  Duration: 1.50s''),
          ConsoleLog (replicate 50 CHR ''=''),
          ConsoleLog (nl @ ''Failed Tests:''),
          ConsoleLog (''  '' @ glyph_failed @ '' A''),
          ConsoleLog ''     undefined'',
          ConsoleLog ''     at tests/example.spec.ts:1'']"
proof -
  let ?rep = "reporter_with []"
  let ?run = "reporter_with [outcome ''A'' 0 Failed, outcome ''A'' 1 Passed]"
  have a: "fault read_only_system (Mkdir (rootDir ?rep @ [''reports''])) = None"
          "fault read_only_system
             (WriteFile (rootDir ?rep @ [''reports'', ''custom-report.json''])) = Some ''EACCES''"
    by (simp_all add: read_only_system_def reporter_with_def)
  have b: "fault full_disk_system (Mkdir (rootDir ?rep @ [''reports''])) = None"
          "fault full_disk_system
             (WriteFile (rootDir ?rep @ [''reports'', ''custom-report.json''])) = None"
          "fault full_disk_system
             (WriteFile (rootDir ?rep @ [''reports'', ''summary.md''])) = Some ''ENOSPC''"
    by (simp_all add: full_disk_system_def reporter_with_def)
  have c: "fault quiet_system c = None" for c
    by (simp add: quiet_system_def)
  have e: "console read_only_system = []" "console full_disk_system = []"
          "console quiet_system = []"
    by (simp_all add: read_only_system_def full_disk_system_def quiet_system_def)
  have digits: "string_of_nat 0 = ''0''" "string_of_nat 1 = ''1''" "string_of_nat 2 = ''2''"
               "string_of_nat (Suc 0) = ''1''" "string_of_nat (Suc (Suc 0)) = ''2''"
    by code_simp+
  have secs: "fixed_half_up (1500 / 1000) 2 = ''1.50''"
    by code_simp
  have dur: "toFixed sample_runtime (divide_number 1500 1000) 2 = ''1.50''"
    using secs by (simp add: divide_number_def sample_runtime_def)
  have ro: "fst (onEnd sample_runtime ?rep None 0 read_only_system) = Inl ''EACCES''
            \<and> console (snd (onEnd sample_runtime ?rep None 0 read_only_system)) = []"
    using onEnd_write_failure_rejects [OF a(1), of "''EACCES''" sample_runtime None 0] a e
    by simp
  have fd: "fst (onEnd sample_runtime ?rep None 0 full_disk_system) = Inl ''ENOSPC''
            \<and> console (snd (onEnd sample_runtime ?rep None 0 full_disk_system)) = []"
    using onEnd_write_failure_rejects [OF b(1), of "''ENOSPC''" sample_runtime None 0] b e
    by simp
  have ok: "fst (onEnd sample_runtime ?run None 1500 quiet_system) = Inr ()
            \<and> console (snd (onEnd sample_runtime ?run None 1500 quiet_system))
       = [ConsoleLog (nl @ replicate 50 CHR ''=''),
          ConsoleLog ''Test Run Summary'',
          ConsoleLog (replicate 50 CHR ''=''),
          ConsoleLog ''Total Tests: 2'',
          ConsoleLog (glyph_passed @ '' Passed: 1''),
          ConsoleLog (glyph_failed @ '' Failed: 1''),
          ConsoleLog (glyph_skipped @ ''  Skipped: 0''),
          ConsoleLog (glyph_flaky @ '' Flaky: 1''),
          ConsoleLog (glyph_timedOut @ ''  Duration: 1.50s''),
          ConsoleLog (replicate 50 CHR ''=''),
          ConsoleLog (nl @ ''Failed Tests:''),
          ConsoleLog (''  '' @ glyph_failed @ '' A''),
          ConsoleLog ''     undefined'',
          ConsoleLog ''     at tests/example.spec.ts:1'']"
    using onEnd_write_failure_rejects [OF c, of ?run "''none''" sample_runtime None 1500]
      c e(3)
    by (simp add: reporter_with_def outcome_def digits dur text_or_undefined_def)
  show ?thesis using ro fd ok by simp
qed

subsection \<open>The Markdown summary\<close>

lemma string_of_nat_0: "string_of_nat 0 = ''0''"
  by (simp add: string_of_nat.simps)

lemma percentage_0_0: "percentage rt 0 0 = ''NaN''"
  by (simp add: percentage_def divide_number_def)

lemma empty_run_rows:
  assumes "reporter.results this = []"
  shows "sublist
           (''| '' @ glyph_passed @ '' Passed | 0 | NaN% |'' @ nl @
            ''| '' @ glyph_failed @ '' Failed | 0 | NaN% |'' @ nl @
            ''| '' @ glyph_skipped @ '' Skipped | 0 | NaN% |'' @ nl @
            ''| '' @ glyph_flaky @ '' Flaky | 0 | NaN% |'' @ nl)
           (generateMarkdownSummary rt this (onEnd_summary rt this run_status now))"
proof -
  let ?s = "onEnd_summary rt this run_status now"
  let ?rows = "''| '' @ glyph_passed @ '' Passed | 0 | NaN% |'' @ nl @
               ''| '' @ glyph_failed @ '' Failed | 0 | NaN% |'' @ nl @
               ''| '' @ glyph_skipped @ '' Skipped | 0 | NaN% |'' @ nl @
               ''| '' @ glyph_flaky @ '' Flaky | 0 | NaN% |'' @ nl"
  let ?top = "''## Summary'' @ nl @ nl @ ''| Status | Count | Percentage |'' @ nl @
              ''|--------|-------|------------|'' @ nl"
  have zero: "passed ?s = 0" "failed ?s = 0" "skipped ?s = 0" "flaky ?s = 0" "totalTests ?s = 0"
    using assms by (simp_all add: onEnd_summary_def)
  have "md_summary_table rt ?s = ?top @ ?rows"
    by (simp add: md_summary_table_def zero string_of_nat_0 percentage_0_0)
  then have "generateMarkdownSummary rt this ?s
               = (md_heading rt ?s @ ?top) @ ?rows @ (md_failed_tests this ?s @ md_test_details this)"
    by (simp add: generateMarkdownSummary_def)
  then show ?thesis by (simp only: sublist_appendI)
qed

text \<open>
  C3 as stated fails in its second half. After a run without tests the summary is
  generated, and every percentage cell of its table reads \<^verbatim>\<open>NaN%\<close>.
\<close>

theorem empty_run_percentage_counterexample:
  "sublist
     (''| '' @ glyph_passed @ '' Passed | 0 | NaN% |'' @ nl @
      ''| '' @ glyph_failed @ '' Failed | 0 | NaN% |'' @ nl @
      ''| '' @ glyph_skipped @ '' Skipped | 0 | NaN% |'' @ nl @
      ''| '' @ glyph_flaky @ '' Flaky | 0 | NaN% |'' @ nl)
     (generateMarkdownSummary sample_runtime (reporter_with [])
        (onEnd_summary sample_runtime (reporter_with []) None 0))"
  by (rule empty_run_rows) (simp add: reporter_with_def)

text \<open>
  C3, amended. When \<open>onEnd\<close> runs with no recorded outcome and the file system takes the
  writes, it resolves and writes the Markdown summary, and the four percentage cells of
  that summary read \<^verbatim>\<open>NaN%\<close>: the quotient \<^verbatim>\<open>0 / 0\<close> is rendered as it is, without a
  guard.
\<close>

theorem empty_run_percentage_is_NaN:
  assumes "reporter.results this = []" and "\<forall>c. fault w c = None"
  shows "fst (onEnd rt this run_status now w) = Inr ()
       \<and> last (files (snd (onEnd rt this run_status now w)))
           = (rootDir this @ [''reports'', ''summary.md''],
              generateMarkdownSummary rt this (onEnd_summary rt this run_status now))
       \<and> sublist
           (''| '' @ glyph_passed @ '' Passed | 0 | NaN% |'' @ nl @
            ''| '' @ glyph_failed @ '' Failed | 0 | NaN% |'' @ nl @
            ''| '' @ glyph_skipped @ '' Skipped | 0 | NaN% |'' @ nl @
            ''| '' @ glyph_flaky @ '' Flaky | 0 | NaN% |'' @ nl)
           (generateMarkdownSummary rt this (onEnd_summary rt this run_status now))"
proof -
  have f: "fault w (Mkdir (rootDir this @ [''reports''])) = None"
          "fault w (WriteFile (rootDir this @ [''reports'', ''custom-report.json''])) = None"
          "fault w (WriteFile (rootDir this @ [''reports'', ''summary.md''])) = None"
    using assms(2) by simp_all
  have "fst (onEnd rt this run_status now w) = Inr ()"
    by (rule onEnd_writes_succeed(1) [OF f])
  moreover have "last (files (snd (onEnd rt this run_status now w)))
           = (rootDir this @ [''reports'', ''summary.md''],
              generateMarkdownSummary rt this (onEnd_summary rt this run_status now))"
    by (simp add: onEnd_writes_succeed(3) [OF f])
  ultimately show ?thesis using empty_run_rows [OF assms(1)] by blast
qed

theorem empty_run_percentage_is_NaN_witness:
  "reporter.results (reporter_with []) = [] \<and> (\<forall>c. fault quiet_system c = None)
   \<and> fst (onEnd sample_runtime (reporter_with []) None 0 quiet_system) = Inr ()
   \<and> sublist
       (''| '' @ glyph_passed @ '' Passed | 0 | NaN% |'' @ nl @
        ''| '' @ glyph_failed @ '' Failed | 0 | NaN% |'' @ nl @
        ''| '' @ glyph_skipped @ '' Skipped | 0 | NaN% |'' @ nl @
        ''| '' @ glyph_flaky @ '' Flaky | 0 | NaN% |'' @ nl)
       (snd (last (files (snd (onEnd sample_runtime (reporter_with []) None 0 quiet_system)))))"
proof -
  have h1: "reporter.results (reporter_with []) = []" by (simp add: reporter_with_def)
  have h2: "\<forall>c. fault quiet_system c = None" by (simp add: quiet_system_def)
  show ?thesis
    using h1 h2 empty_run_percentage_is_NaN [OF h1 h2, of sample_runtime None 0]
    by simp
qed

subsection \<open>Status glyphs\<close>

lemma details_row_in_markdown:
  assumes "r \<in> set (reporter.results this)"
  shows "sublist (details_row r) (generateMarkdownSummary rt this s)"
proof -
  from assms obtain xs ys where split: "reporter.results this = xs @ r # ys"
    by (auto dest: split_list)
  let ?before = "md_heading rt s @ md_summary_table rt s @ md_failed_tests this s @
     nl @ ''## Test Details'' @ nl @ nl @
     ''<details>'' @ nl @ ''<summary>Click to expand full test results</summary>'' @ nl @ nl @
     ''| Test | Status | Duration | Tags |'' @ nl @
     ''|------|--------|----------|------|'' @ nl @ concat (map details_row xs)"
  let ?after = "concat (map details_row ys) @ nl @ ''</details>'' @ nl"
  have "generateMarkdownSummary rt this s = ?before @ details_row r @ ?after"
    by (simp add: generateMarkdownSummary_def md_test_details_def split)
  then show ?thesis by (simp only: sublist_appendI)
qed

text \<open>
  C10. When an attempt with status interrupted ends, \<open>onTestEnd\<close> prints its progress
  line with the stop-sign glyph and records the outcome with status interrupted. For every
  recorded outcome with that status, the row of the full-results table of the Markdown
  summary carries the question-mark glyph of an unknown status, the Markdown glyph table
  having no entry for interrupted.
\<close>

theorem interrupted_glyph_differs:
  assumes "result_status result = Interrupted"
  shows "console (snd (onTestEnd test result this w)) ! length (console w)
           = ConsoleLog (glyph_interrupted @ '' '' @ test_title test @ '' (''
                           @ string_of_int (result_duration result) @ ''ms)'')
       \<and> testResult.status (last (reporter.results (fst (onTestEnd test result this w))))
           = Interrupted
       \<and> (\<forall>r \<in> set (reporter.results (fst (onTestEnd test result this w))).
            testResult.status r = Interrupted \<longrightarrow>
              details_row r
                = ''| '' @ title r @ '' | '' @ glyph_unknown @ '' | ''
                    @ string_of_int (testResult.duration r) @ ''ms | ''
                    @ (if join '', '' (tags r) = [] then ''-'' else join '', '' (tags r))
                    @ '' |'' @ nl
              \<and> sublist (details_row r)
                  (generateMarkdownSummary rt (fst (onTestEnd test result this w)) s))"
proof (intro conjI ballI impI)
  show "console (snd (onTestEnd test result this w)) ! length (console w)
           = ConsoleLog (glyph_interrupted @ '' '' @ test_title test @ '' (''
                           @ string_of_int (result_duration result) @ ''ms)'')"
    using assms
    by (simp add: onTestEnd_def Let_def lookup_or_def console_statusIcon_def
          glyph_interrupted_def console_log_def console_error_def nth_append
          split: option.split prod.split)
  show "testResult.status (last (reporter.results (fst (onTestEnd test result this w))))
           = Interrupted"
    using assms by (simp add: onTestEnd_def Let_def)
next
  fix r :: testResult
  assume mem: "r \<in> set (reporter.results (fst (onTestEnd test result this w)))"
    and st: "testResult.status r = Interrupted"
  from st show "details_row r
                = ''| '' @ title r @ '' | '' @ glyph_unknown @ '' | ''
                    @ string_of_int (testResult.duration r) @ ''ms | ''
                    @ (if join '', '' (tags r) = [] then ''-'' else join '', '' (tags r))
                    @ '' |'' @ nl"
    by (simp add: details_row_def lookup_or_def markdown_statusIcon_def glyph_unknown_def)
  from mem show "sublist (details_row r)
               (generateMarkdownSummary rt (fst (onTestEnd test result this w)) s)"
    by (rule details_row_in_markdown)
qed

theorem interrupted_glyph_differs_witness:
  "result_status interrupted_attempt = Interrupted
   \<and> console (snd (onTestEnd sample_test interrupted_attempt (reporter_with []) quiet_system))
       = [ConsoleLog (glyph_interrupted @ '' loads (12ms)'')]
   \<and> details_row (last (reporter.results
        (fst (onTestEnd sample_test interrupted_attempt (reporter_with []) quiet_system))))
       = ''| loads | '' @ glyph_unknown @ '' | 12ms | - |'' @ nl"
proof -
  have h: "result_status interrupted_attempt = Interrupted"
    by (simp add: interrupted_attempt_def)
  let ?run = "onTestEnd sample_test interrupted_attempt (reporter_with []) quiet_system"
  have rs: "reporter.results (fst ?run) \<noteq> []"
    by (simp add: onTestEnd_def Let_def)
  have c: "length (console (snd ?run)) = 1" "console quiet_system = []"
    by (simp_all add: onTestEnd_def Let_def interrupted_attempt_def quiet_system_def
          console_log_def)
  have d: "string_of_int 12 = ''12''"
    by (simp add: string_of_int_def string_of_nat.simps)
  have t: "title (last (reporter.results (fst ?run))) = ''loads''"
          "testResult.duration (last (reporter.results (fst ?run))) = 12"
          "tags (last (reporter.results (fst ?run))) = []"
    by (simp_all add: onTestEnd_def Let_def sample_test_def interrupted_attempt_def)
  have first: "console (snd ?run) = [console (snd ?run) ! 0]"
    using c(1) by (cases "console (snd ?run)") simp_all
  from interrupted_glyph_differs [OF h, of sample_test "reporter_with []" quiet_system
          sample_runtime "onEnd_summary sample_runtime (reporter_with []) None 0"]
  have line: "console (snd ?run) ! 0 = ConsoleLog (glyph_interrupted @ '' loads (12ms)'')"
    and row: "details_row (last (reporter.results (fst ?run)))
                = ''| loads | '' @ glyph_unknown @ '' | 12ms | - |'' @ nl"
    using rs c(2) d t
    by (simp_all add: sample_test_def interrupted_attempt_def)
  show ?thesis using h first line row by simp
qed

end
